theory Spec2Isabelle
  imports Complex_Main "HOL-Library.Sublist" "HOL-Library.Multiset"
begin

section \<open>Profile records\<close>

text \<open>
  A profile is a Python dict with a fixed vocabulary of keys. It is modelled as a record
  whose fields are optional: \<open>None\<close> says that the dict has no value for the key
  (the key is missing; for \<open>follower_count\<close>, which the scoring functions read
  with \<open>dict.get\<close>, it may also hold Python's \<open>None\<close>). Strings are lists
  of code points below 256. Python floats are taken as exact reals: rounding is outside
  this model.
\<close>

datatype pyval = PyNone | PyStr string | PyInt int

record profile =
  name :: "string option"
  headline :: "string option"
  location :: "string option"
  profile_url :: "string option"
  company :: "string option"
  follower_count :: "int option"
  keyword_matched :: "string option"
  scraped_date :: "string option"
  profile_completeness :: "real option"
  confidence_score :: "real option"
  quality_score :: "real option"

definition str_val :: "string option \<Rightarrow> pyval" where
  "str_val v = (case v of None \<Rightarrow> PyNone | Some s \<Rightarrow> PyStr s)"

definition int_val :: "int option \<Rightarrow> pyval" where
  "int_val v = (case v of None \<Rightarrow> PyNone | Some n \<Rightarrow> PyInt n)"

text \<open>\<open>profile_data.get(field)\<close> for the keys the scoring functions read.\<close>

definition get_field :: "profile \<Rightarrow> string \<Rightarrow> pyval" where
  "get_field p field =
     (if field = ''name'' then str_val (name p)
      else if field = ''headline'' then str_val (headline p)
      else if field = ''location'' then str_val (location p)
      else if field = ''profile_url'' then str_val (profile_url p)
      else if field = ''company'' then str_val (company p)
      else if field = ''follower_count'' then int_val (follower_count p)
      else PyNone)"

subsection \<open>Python built-ins used by the scoring functions\<close>

text \<open>Truth value of a Python object: \<open>None\<close>, the empty string and 0 are false.\<close>

fun truthy :: "pyval \<Rightarrow> bool" where
  "truthy PyNone = False"
| "truthy (PyStr s) = (s \<noteq> [])"
| "truthy (PyInt n) = (n \<noteq> 0)"

definition digit_char :: "nat \<Rightarrow> char" where
  "digit_char d = char_of (48 + d)"

fun str_nat :: "nat \<Rightarrow> string" where
  "str_nat n = (if n < 10 then [digit_char n] else str_nat (n div 10) @ [digit_char (n mod 10)])"

declare str_nat.simps [simp del]

definition str_int :: "int \<Rightarrow> string" where
  "str_int i = (if i < 0 then CHR ''-'' # str_nat (nat (- i)) else str_nat (nat i))"

fun py_str :: "pyval \<Rightarrow> string" where
  "py_str PyNone = ''None''"
| "py_str (PyStr s) = s"
| "py_str (PyInt n) = str_int n"

text \<open>\<open>str.isspace\<close> on code points below 256.\<close>

definition isspace :: "char \<Rightarrow> bool" where
  "isspace c = (let n = (of_char c :: nat) in
     (9 \<le> n \<and> n \<le> 13) \<or> (28 \<le> n \<and> n \<le> 32) \<or> n = 133 \<or> n = 160)"

definition strip :: "string \<Rightarrow> string" where
  "strip s = rev (dropWhile isspace (rev (dropWhile isspace s)))"

text \<open>\<open>str.lower\<close> on code points below 256: A-Z and the Latin-1 capitals.\<close>

definition lower_char :: "char \<Rightarrow> char" where
  "lower_char c = (let n = (of_char c :: nat) in
     if (65 \<le> n \<and> n \<le> 90) \<or> (192 \<le> n \<and> n \<le> 222 \<and> n \<noteq> 215)
     then char_of (n + 32) else c)"

definition lower :: "string \<Rightarrow> string" where
  "lower s = map lower_char s"

text \<open>\<open>needle in haystack\<close> on strings is the contiguous-substring test.\<close>

definition py_in :: "string \<Rightarrow> string \<Rightarrow> bool" where
  "py_in needle haystack = sublist needle haystack"

subsection \<open>utils.py: the scoring functions\<close>

definition required_fields :: "string list" where
  "required_fields = [''name'', ''headline'', ''location'', ''profile_url'']"

definition optional_fields :: "string list" where
  "optional_fields = [''company'', ''follower_count'']"

text \<open>The test \<open>profile_data.get(field) and str(profile_data[field]).strip()\<close>.\<close>

definition field_counts :: "profile \<Rightarrow> string \<Rightarrow> bool" where
  "field_counts p field =
     (truthy (get_field p field) \<and> truthy (PyStr (strip (py_str (get_field p field)))))"

definition calculate_profile_completeness :: "profile \<Rightarrow> real" where
  "calculate_profile_completeness p =
     (let score = 0;
          total_fields = length required_fields + length optional_fields;
          score = fold (\<lambda>field score. if field_counts p field then score + 1.0 else score)
                    required_fields score;
          score = fold (\<lambda>field score. if field_counts p field then score + 0.5 else score)
                    optional_fields score
      in score / real total_fields)"

definition calculate_confidence_score :: "profile \<Rightarrow> string \<Rightarrow> real" where
  "calculate_confidence_score p kw =
     (let base_score = 0.5;
          completeness = calculate_profile_completeness p;
          base_score = base_score + completeness * 0.3;
          base_score = (if truthy (get_field p ''follower_count'')
                        then base_score + 0.1 else base_score);
          headline_l = lower (case headline p of None \<Rightarrow> [] | Some h \<Rightarrow> h);
          base_score = (if py_in (lower kw) headline_l
                        then base_score + 0.1 else base_score)
      in min base_score 1.0)"

subsection \<open>The spec's wording of the two scores\<close>

text \<open>
  These two definitions follow the specification, not the code: a string attribute is
  non-empty unless it is missing, empty or whitespace-only; \<open>follower_count\<close> is
  non-empty when it is present.
\<close>

definition blank :: "string \<Rightarrow> bool" where
  "blank s = list_all isspace s"

definition present_str :: "string option \<Rightarrow> bool" where
  "present_str v = (case v of None \<Rightarrow> False | Some s \<Rightarrow> \<not> blank s)"

definition completeness_spec :: "profile \<Rightarrow> real" where
  "completeness_spec p =
     (real (length (filter present_str [name p, headline p, location p, profile_url p])) * 1.0
      + real (length (filter id [present_str (company p), follower_count p \<noteq> None])) * 0.5)
     / 6"

definition confidence_spec :: "profile \<Rightarrow> string \<Rightarrow> real" where
  "confidence_spec p kw =
     min (0.5 + calculate_profile_completeness p * 0.3
          + (if follower_count p \<noteq> None then 0.1 else 0)
          + (if sublist (lower kw) (lower (case headline p of None \<Rightarrow> [] | Some h \<Rightarrow> h))
             then 0.1 else 0))
         1.0"

text \<open>The code reads a follower count of 0 as no follower count at all.\<close>

definition zero_followers_absent :: "profile \<Rightarrow> profile" where
  "zero_followers_absent p =
     (if follower_count p = Some 0 then p\<lparr>follower_count := None\<rparr> else p)"

section \<open>The data processor\<close>

subsection \<open>Deduplication\<close>

text \<open>
  A pandas DataFrame is modelled as the list of its rows, a row being a profile; an absent
  cell (NaN) is a field that is \<open>None\<close>. \<open>drop_duplicates(subset=[key],
  keep='first')\<close> walks the rows in order and keeps a row when its key has not been
  seen before.
\<close>

fun drop_seen :: "('a \<Rightarrow> 'k) \<Rightarrow> 'k list \<Rightarrow> 'a list \<Rightarrow> 'a list" where
  "drop_seen key seen [] = []"
| "drop_seen key seen (x # xs) =
     (if key x \<in> set seen then drop_seen key seen xs
      else x # drop_seen key (key x # seen) xs)"

definition drop_duplicates :: "('a \<Rightarrow> 'k) \<Rightarrow> 'a list \<Rightarrow> 'a list" where
  "drop_duplicates key df = drop_seen key [] df"

text \<open>
  \<open>stored\<close> is what \<open>load_existing_profiles()\<close> reads from the CSV file; it is
  consulted only when no DataFrame is passed.
\<close>

definition deduplicate_profiles ::
  "profile list \<Rightarrow> profile list \<Rightarrow> profile list option \<Rightarrow> profile list" where
  "deduplicate_profiles stored new_profiles existing_df =
     (if new_profiles = [] then []
      else
        let new_df = new_profiles;
            existing_df = (case existing_df of None \<Rightarrow> stored | Some df \<Rightarrow> df);
            combined_df = (if existing_df \<noteq> [] then existing_df @ new_df else new_df);
            deduplicated_df = drop_duplicates profile_url combined_df
        in deduplicated_df)"

text \<open>
  The spec's wording: of the rows in their order, keep the one at position \<open>i\<close> when no
  earlier row has its key.
\<close>

definition first_occurrences :: "('a \<Rightarrow> 'k) \<Rightarrow> 'a list \<Rightarrow> 'a list" where
  "first_occurrences key xs =
     map (\<lambda>i. xs ! i)
       (filter (\<lambda>i. key (xs ! i) \<notin> set (map key (take i xs))) [0..<length xs])"

definition dedup_spec :: "profile list \<Rightarrow> profile list \<Rightarrow> profile list" where
  "dedup_spec new_records existing_records =
     first_occurrences profile_url (existing_records @ new_records)"

subsection \<open>Quality filter and ranking\<close>

text \<open>\<open>profile.get(key, 0)\<close> on a score.\<close>

definition get_score :: "real option \<Rightarrow> real" where
  "get_score v = (case v of None \<Rightarrow> 0 | Some x \<Rightarrow> x)"

definition filter_by_quality :: "profile list \<Rightarrow> real \<Rightarrow> real \<Rightarrow> profile list" where
  "filter_by_quality profiles min_confidence min_completeness =
     (if profiles = [] then []
      else fold (\<lambda>profile filtered_profiles.
                  let confidence = get_score (confidence_score profile);
                      completeness = get_score (profile_completeness profile)
                  in if confidence \<ge> min_confidence \<and> completeness \<ge> min_completeness
                     then filtered_profiles @ [profile] else filtered_profiles)
             profiles [])"

text \<open>
  \<open>sorted(xs, key=f, reverse=True)\<close>: CPython reverses the list, sorts it stably in
  ascending order and reverses the result. \<open>sort_key\<close> is a stable insertion sort.
\<close>

definition py_sorted_reverse :: "('a \<Rightarrow> real) \<Rightarrow> 'a list \<Rightarrow> 'a list" where
  "py_sorted_reverse f xs = rev (sort_key f (rev xs))"

definition set_quality_score :: "profile \<Rightarrow> profile" where
  "set_quality_score p =
     (let confidence = get_score (confidence_score p);
          completeness = get_score (profile_completeness p)
      in p\<lparr>quality_score := Some (confidence + completeness)\<rparr>)"

definition sort_by_quality :: "profile list \<Rightarrow> profile list" where
  "sort_by_quality profiles =
     (if profiles = [] then []
      else let profiles = map set_quality_score profiles
           in py_sorted_reverse (\<lambda>x. get_score (quality_score x)) profiles)"

subsection \<open>Summary report\<close>

text \<open>
  The report is a dict, kept as the list of its items in insertion order. The DataFrame
  built from the dicts has a column for every key that occurs in one of them; which keys
  occur is not held by the records, so it is given as \<open>keys\<close> (the scraper writes
  all of \<open>scraper_keys\<close> into every dict). \<open>column\<close> gives the cells of a
  column that are not null. The mean of a column with no such cell is NaN.
\<close>

datatype rval = RInt int | RFloat real | RNaN | RDict "(string \<times> nat) list"

definition scraper_keys :: "string list" where
  "scraper_keys = [''name'', ''headline'', ''location'', ''profile_url'', ''company'',
     ''follower_count'', ''keyword_matched'', ''scraped_date'', ''profile_completeness'',
     ''confidence_score'']"

definition column :: "(profile \<Rightarrow> 'a option) \<Rightarrow> profile list \<Rightarrow> 'a list" where
  "column f df = List.map_filter f df"

definition in_columns :: "string \<Rightarrow> string list \<Rightarrow> bool" where
  "in_columns key keys = (key \<in> set keys)"

definition nunique :: "'a list \<Rightarrow> int" where
  "nunique xs = int (length (remdups xs))"

definition mean :: "real list \<Rightarrow> rval" where
  "mean xs = (if xs = [] then RNaN else RFloat (sum_list xs / real (length xs)))"

text \<open>
  \<open>value_counts\<close> counts each value and orders the values by descending count; among
  values of one count, for which pandas promises no order, the order of first occurrence
  is kept here.
\<close>

definition value_counts :: "string list \<Rightarrow> (string \<times> nat) list" where
  "value_counts xs =
     rev (sort_key snd (rev (map (\<lambda>k. (k, count_list xs k)) (remdups xs))))"

definition generate_summary_report :: "string list \<Rightarrow> profile list \<Rightarrow> (string \<times> rval) list" where
  "generate_summary_report keys profiles =
     (if profiles = [] then []
      else
        let df = profiles;
            summary =
              [(''total_profiles'', RInt (int (length profiles))),
               (''unique_companies'',
                  if in_columns ''company'' keys
                  then RInt (nunique (column company df)) else RInt 0),
               (''unique_locations'',
                  if in_columns ''location'' keys
                  then RInt (nunique (column location df)) else RInt 0),
               (''avg_confidence_score'',
                  if in_columns ''confidence_score'' keys
                  then mean (column confidence_score df) else RInt 0),
               (''avg_profile_completeness'',
                  if in_columns ''profile_completeness'' keys
                  then mean (column profile_completeness df) else RInt 0),
               (''avg_follower_count'',
                  if in_columns ''follower_count'' keys
                  then mean (map real_of_int (column follower_count df)) else RInt 0),
               (''keyword_distribution'',
                  if in_columns ''keyword_matched'' keys
                  then RDict (value_counts (column keyword_matched df)) else RDict [])]
        in if in_columns ''follower_count'' keys
           then
             let follower_counts = column follower_count df
             in summary @
                [(''follower_ranges'', RDict
                   [(''1k-2k'', length (filter (\<lambda>n. n \<ge> 1000 \<and> n < 2000) follower_counts)),
                    (''2k-5k'', length (filter (\<lambda>n. n \<ge> 2000 \<and> n < 5000) follower_counts)),
                    (''5k-10k'', length (filter (\<lambda>n. n \<ge> 5000 \<and> n \<le> 10000) follower_counts))])]
           else summary)"

text \<open>
  \<open>summary.get(key, default)\<close>, the way \<open>export_summary_report\<close> reads the report:
  with the default 0 for the counts and the averages, with the empty dict for the two
  distributions.
\<close>

definition summary_get :: "(string \<times> rval) list \<Rightarrow> string \<Rightarrow> rval \<Rightarrow> rval" where
  "summary_get summary key dflt = (case map_of summary key of None \<Rightarrow> dflt | Some v \<Rightarrow> v)"

text \<open>
  \<open>save_profiles_to_csv\<close> refuses an empty list and otherwise reports whether the
  file could be written, which is a fact of the file system.
\<close>

definition save_profiles_to_csv :: "(profile list \<Rightarrow> bool) \<Rightarrow> profile list \<Rightarrow> bool" where
  "save_profiles_to_csv write_ok profiles = (if profiles = [] then False else write_ok profiles)"

section \<open>The job controller (web application)\<close>

subsection \<open>Job status and the two control requests\<close>

record job_status =
  running :: bool
  progress :: real
  message :: string
  total_profiles :: nat
  found_profiles :: nat
  start_time :: "string option"
  end_time :: "string option"
  error :: "string option"

definition initial_status :: job_status where
  "initial_status = \<lparr>running = False, progress = 0, message = [], total_profiles = 0,
     found_profiles = 0, start_time = None, end_time = None, error = None\<rparr>"

text \<open>
  What \<open>request.get_json()\<close> does with the body of a start request. Flask itself
  raises an HTTP error for a body it does not take as JSON (400 for malformed JSON, 415
  for another content type); otherwise the call returns the parsed value, which is a JSON
  object or something else (\<open>null\<close>, an array, a string, a number). Of an object only
  the two keys the handler reads are kept, as strings; a key that is missing or holds
  \<open>null\<close> reads as \<open>None\<close>.
\<close>

record credentials =
  email :: "string option"
  password :: "string option"

datatype json_body = JsonObject credentials | JsonOther

datatype get_json = Raises nat | Returns json_body

text \<open>
  A handler answers with status 200 and a message, or with 400 and an error text of its
  own. \<open>Aborted\<close> is the HTTP error Flask raised inside the handler, passed on with
  its code; \<open>Crashed\<close> is an exception the handler did not catch, which Flask answers
  with status 500.
\<close>

datatype response = Success string | BadRequest string | Aborted nat | Crashed string

text \<open>
  The worker thread. Its program counter names the places of \<open>run_scraping\<close> at which
  another thread can be scheduled and see or change the shared status: the two loop heads
  (where the flag is read), the two loop bodies (a search is in flight), the processing
  stage and the \<open>finally\<close> block. \<open>calls\<close> logs the queries sent to the
  collaborator; \<open>uncaught\<close> holds an exception that left \<open>run_scraping\<close>.
\<close>

datatype pc =
    Boot
  | Login
  | KwHead "string list"
  | KwBody string "string list"
  | CoHead "string list"
  | CoBody string "string list"
  | Process
  | Fin
  | Done

record worker =
  pc :: pc
  all_profiles :: "profile list"
  current_search :: nat
  scraper_bound :: bool
  closed :: bool
  uncaught :: "string option"
  calls :: "string list"

definition new_worker :: worker where
  "new_worker = \<lparr>pc = Boot, all_profiles = [], current_search = 0, scraper_bound = False,
     closed = False, uncaught = None, calls = []\<rparr>"

text \<open>
  \<open>start_scraping\<close>: the answer, the status afterwards and the thread it started, if
  any. \<open>now\<close> is the reading of the clock. The flag is tested before the body is
  read; on a value that is not an object \<open>data.get\<close> raises an
  \<open>AttributeError\<close>, which nothing catches.
\<close>

definition start_scraping ::
  "string \<Rightarrow> get_json \<Rightarrow> job_status \<Rightarrow> response \<times> job_status \<times> worker option" where
  "start_scraping now request st =
     (if running st then (BadRequest ''Job already running'', st, None)
      else
        case request of
          Raises code \<Rightarrow> (Aborted code, st, None)
        | Returns JsonOther \<Rightarrow> (Crashed ''AttributeError'', st, None)
        | Returns (JsonObject data) \<Rightarrow>
            if \<not> truthy (str_val (email data)) \<or> \<not> truthy (str_val (password data))
            then (BadRequest ''Email and password required'', st, None)
            else
              (Success ''Scraping started successfully'',
               st\<lparr>running := True, progress := 0, message := ''Initializing scraper...'',
                  total_profiles := 0, found_profiles := 0, start_time := Some now,
                  end_time := None, error := None\<rparr>,
               Some new_worker))"


subsection \<open>The workflow\<close>

text \<open>
  What the workflow meets outside itself: the configuration, and the behaviour of the
  collaborator and of the file system during this run. \<open>scraper_fault\<close> is the
  exception, if any, raised while the scraper is constructed (the browser driver fails to
  start); \<open>processing_fault\<close> is the exception, if any, raised by the pandas calls of
  the processing stage, which the data processor does not catch. \<open>login\<close> and
  \<open>search_profiles\<close> catch their own exceptions in the scraper and always return.
\<close>

record env =
  search_keywords :: "string list"
  target_companies :: "string list"
  confidence_threshold :: real
  min_profile_completeness :: real
  scraper_fault :: "string option"
  login_result :: bool
  search_profiles :: "string \<Rightarrow> profile list"
  stored_profiles :: "profile list"
  processing_fault :: "string option"
  write_ok :: "profile list \<Rightarrow> bool"

text \<open>The body of either loop after the flag was read: one search, then the counters.\<close>

definition search_done :: "env \<Rightarrow> string \<Rightarrow> job_status \<times> worker \<Rightarrow> job_status \<times> worker" where
  "search_done e query sw =
     (let st = fst sw; w = snd sw;
          profiles = search_profiles e query;
          all = all_profiles w @ profiles;
          total_keywords = length (search_keywords e) + length (target_companies e);
          current = current_search w + 1
      in (st\<lparr>progress := 10 + (real current / real total_keywords) * 70,
             found_profiles := length all\<rparr>,
          w\<lparr>all_profiles := all, current_search := current, calls := calls w @ [query]\<rparr>))"

text \<open>The processing stage, from the progress mark 80 to the end of the \<open>try\<close> block.\<close>

definition process_profiles :: "env \<Rightarrow> job_status \<Rightarrow> profile list \<Rightarrow> job_status" where
  "process_profiles e st0 all =
     (let st = st0\<lparr>message := ''Processing and saving profiles...'', progress := 80\<rparr>
      in if all \<noteq> [] then
           (case processing_fault e of
              Some exn \<Rightarrow> st\<lparr>error := Some (''Scraping failed: '' @ exn)\<rparr>
            | None \<Rightarrow>
                let existing_df = stored_profiles e;
                    deduplicated_profiles =
                      deduplicate_profiles (stored_profiles e) all (Some existing_df);
                    filtered_profiles =
                      filter_by_quality deduplicated_profiles
                        (confidence_threshold e) (min_profile_completeness e);
                    sorted_profiles = sort_by_quality filtered_profiles;
                    success = save_profiles_to_csv (write_ok e) sorted_profiles
                in if success
                   then st\<lparr>message := ''Successfully saved '' @ str_nat (length sorted_profiles)
                                        @ '' profiles!'',
                           total_profiles := length sorted_profiles,
                           progress := 100\<rparr>
                   else st\<lparr>error := Some ''Failed to save profiles to CSV''\<rparr>)
         else st\<lparr>error := Some ''No profiles found during search''\<rparr>)"

text \<open>One scheduling step of the worker thread against the shared status.\<close>

fun worker_step :: "env \<Rightarrow> string \<Rightarrow> job_status \<times> worker \<Rightarrow> job_status \<times> worker" where
  "worker_step e now (st, w) =
     (case pc w of
        Boot \<Rightarrow>
          (case scraper_fault e of
             Some exn \<Rightarrow> (st\<lparr>error := Some (''Scraping failed: '' @ exn)\<rparr>, w\<lparr>pc := Fin\<rparr>)
           | None \<Rightarrow> (st\<lparr>message := ''Logging into LinkedIn...''\<rparr>,
                      w\<lparr>pc := Login, scraper_bound := True\<rparr>))
      | Login \<Rightarrow>
          (if \<not> login_result e
           then (st\<lparr>error := Some ''Failed to login to LinkedIn. Check credentials.'',
                    running := False\<rparr>,
                 w\<lparr>pc := Fin\<rparr>)
           else (st\<lparr>message := ''Starting comprehensive search...'', progress := 10\<rparr>,
                 w\<lparr>pc := KwHead (search_keywords e), all_profiles := [], current_search := 0\<rparr>))
      | KwHead [] \<Rightarrow> (st, w\<lparr>pc := CoHead (target_companies e)\<rparr>)
      | KwHead (keyword # rest) \<Rightarrow>
          (if \<not> running st then (st, w\<lparr>pc := CoHead (target_companies e)\<rparr>)
           else (st\<lparr>message := ''Searching: '' @ keyword\<rparr>, w\<lparr>pc := KwBody keyword rest\<rparr>))
      | KwBody keyword rest \<Rightarrow>
          (let sw = search_done e keyword (st, w) in (fst sw, (snd sw)\<lparr>pc := KwHead rest\<rparr>))
      | CoHead [] \<Rightarrow> (st, w\<lparr>pc := Process\<rparr>)
      | CoHead (cname # rest) \<Rightarrow>
          (if \<not> running st then (st, w\<lparr>pc := Process\<rparr>)
           else (st\<lparr>message := ''Searching company: '' @ cname\<rparr>,
                 w\<lparr>pc := CoBody cname rest\<rparr>))
      | CoBody cname rest \<Rightarrow>
          (let sw = search_done e (''current company:'' @ cname) (st, w)
           in (fst sw, (snd sw)\<lparr>pc := CoHead rest\<rparr>))
      | Process \<Rightarrow> (process_profiles e st (all_profiles w), w\<lparr>pc := Fin\<rparr>)
      | Fin \<Rightarrow>
          (let st' = st\<lparr>running := False, end_time := Some now\<rparr>
           in if scraper_bound w then (st', w\<lparr>pc := Done, closed := True\<rparr>)
              else (st', w\<lparr>pc := Done,
                         uncaught := Some ''UnboundLocalError: scraper''\<rparr>))
      | Done \<Rightarrow> (st, w))"

declare worker_step.simps [simp del]

text \<open>The worker running alone for \<open>n\<close> steps.\<close>

definition run_steps :: "env \<Rightarrow> string \<Rightarrow> nat \<Rightarrow> job_status \<times> worker \<Rightarrow> job_status \<times> worker" where
  "run_steps e now n sw = (worker_step e now ^^ n) sw"

text \<open>A bound on the steps a worker still takes, from its program counter.\<close>

definition steps_left :: "env \<Rightarrow> pc \<Rightarrow> nat" where
  "steps_left e c =
     (let co = 2 * length (target_companies e) + 3 in
      case c of
        Boot \<Rightarrow> 2 * length (search_keywords e) + co + 3
      | Login \<Rightarrow> 2 * length (search_keywords e) + co + 2
      | KwHead ks \<Rightarrow> 2 * length ks + co + 1
      | KwBody k ks \<Rightarrow> 2 * length ks + co + 2
      | CoHead cs \<Rightarrow> 2 * length cs + 3
      | CoBody c cs \<Rightarrow> 2 * length cs + 4
      | Process \<Rightarrow> 2
      | Fin \<Rightarrow> 1
      | Done \<Rightarrow> 0)"

definition run_to_end :: "env \<Rightarrow> string \<Rightarrow> job_status \<times> worker \<Rightarrow> job_status \<times> worker" where
  "run_to_end e now sw = run_steps e now (steps_left e (pc (snd sw))) sw"





section \<open>Example data\<close>

definition empty_profile :: profile where
  "empty_profile = \<lparr>name = None, headline = None, location = None, profile_url = None,
     company = None, follower_count = None, keyword_matched = None, scraped_date = None,
     profile_completeness = None, confidence_score = None, quality_score = None\<rparr>"

definition example_full :: profile where
  "example_full = empty_profile\<lparr>name := Some ''Ann Lee'', headline := Some ''AI Agent builder'',
     location := Some ''Oslo'', profile_url := Some ''https://www.linkedin.com/in/ann'',
     company := Some ''Acme'', follower_count := Some 1500, keyword_matched := Some ''AI agent''\<rparr>"

definition example_zero_followers :: profile where
  "example_zero_followers = example_full\<lparr>follower_count := Some 0\<rparr>"

definition with_url :: "string \<Rightarrow> string \<Rightarrow> profile" where
  "with_url u n = empty_profile\<lparr>profile_url := Some u, name := Some n\<rparr>"

definition with_scores :: "string \<Rightarrow> real \<Rightarrow> real \<Rightarrow> profile" where
  "with_scores u c k = empty_profile\<lparr>profile_url := Some u, confidence_score := Some c,
     profile_completeness := Some k\<rparr>"

definition example_scored :: profile where
  "example_scored = example_full\<lparr>profile_completeness := Some (5/6),
     confidence_score := Some (19/20)\<rparr>"

definition example_credentials :: credentials where
  "example_credentials = \<lparr>email = Some ''ann@example.org'', password = Some ''secret''\<rparr>"

definition example_env :: env where
  "example_env = \<lparr>search_keywords = [''AI agent'', ''RPA''], target_companies = [''Zapier''],
     confidence_threshold = 0.7, min_profile_completeness = 0.6, scraper_fault = None,
     login_result = True,
     search_profiles = (\<lambda>q. if q = ''AI agent'' then [example_scored] else []),
     stored_profiles = [], processing_fault = None, write_ok = (\<lambda>ps. True)\<rparr>"

text \<open>
  A job is started from the idle status and its worker runs five steps: it has logged in,
  finished the search for the first keyword and sent the query for the second.
\<close>

definition example_request :: get_json where
  "example_request = Returns (JsonObject example_credentials)"

definition example_started :: "job_status \<times> worker" where
  "example_started =
     (fst (snd (start_scraping ''09:00:00'' example_request initial_status)), new_worker)"



text \<open>The same start where the browser driver cannot be launched.\<close>

definition example_env_no_driver :: env where
  "example_env_no_driver = example_env\<lparr>scraper_fault := Some ''chromedriver not found''\<rparr>"

text \<open>Three scored records with quality 1.2, 1.2 and 0.9, and one without scores.\<close>

definition example_A :: profile where
  "example_A = with_scores ''A'' (7/10) (1/2)"

definition example_B :: profile where
  "example_B = with_scores ''B'' (3/5) (3/5)"

definition example_C :: profile where
  "example_C = with_scores ''C'' (1/2) (2/5)"

definition example_unscored :: profile where
  "example_unscored = empty_profile\<lparr>profile_url := Some ''u''\<rparr>"

section \<open>The scoring functions\<close>

subsection \<open>Whitespace and the rendering of integers\<close>

lemma strip_Nil_iff: "strip s = [] \<longleftrightarrow> blank s"
proof -
  have "(\<forall>c\<in>set (dropWhile isspace s). isspace c) \<longleftrightarrow> (\<forall>c\<in>set s. isspace c)"
  proof
    assume a: "\<forall>c\<in>set (dropWhile isspace s). isspace c"
    have "dropWhile isspace s = []"
    proof (rule ccontr)
      assume n: "dropWhile isspace s \<noteq> []"
      then have "\<not> isspace (hd (dropWhile isspace s))" by (rule hd_dropWhile)
      moreover have "hd (dropWhile isspace s) \<in> set (dropWhile isspace s)" using n by simp
      ultimately show False using a by blast
    qed
    then show "\<forall>c\<in>set s. isspace c" by (simp add: dropWhile_eq_Nil_conv)
  next
    assume "\<forall>c\<in>set s. isspace c"
    then show "\<forall>c\<in>set (dropWhile isspace s). isspace c" by (meson set_dropWhileD)
  qed
  then show ?thesis
    by (simp add: strip_def blank_def list_all_iff)
qed

lemma digit_not_space: "d < 10 \<Longrightarrow> \<not> isspace (digit_char d)"
  by (simp add: isspace_def digit_char_def Let_def)

lemma str_nat_digits: "c \<in> set (str_nat n) \<Longrightarrow> \<not> isspace c"
proof (induction n rule: str_nat.induct)
  case (1 n)
  show ?case
  proof (cases "n < 10")
    case True
    with "1.prems" show ?thesis by (simp add: str_nat.simps [of n] digit_not_space)
  next
    case False
    with "1.prems" have "c \<in> set (str_nat (n div 10)) \<or> c = digit_char (n mod 10)"
      by (auto simp: str_nat.simps [of n])
    then show ?thesis using "1.IH" False by (auto simp: digit_not_space)
  qed
qed

lemma str_nat_not_Nil: "str_nat n \<noteq> []"
  by (simp add: str_nat.simps [of n])

lemma str_int_not_blank: "\<not> blank (str_int i)"
proof -
  have "\<not> isspace CHR ''-''" by (simp add: isspace_def)
  moreover have "\<And>n. \<not> blank (str_nat n)"
    using str_nat_digits str_nat_not_Nil
    by (metis blank_def list_all_iff last_in_set)
  ultimately show ?thesis by (simp add: str_int_def blank_def)
qed

subsection \<open>Which fields count\<close>

lemma field_counts_str:
  "truthy (str_val v) \<and> strip (py_str (str_val v)) \<noteq> [] \<longleftrightarrow> present_str v"
  by (cases v) (auto simp: str_val_def present_str_def strip_Nil_iff blank_def)

lemma field_counts_int:
  "truthy (int_val v) \<and> strip (py_str (int_val v)) \<noteq> [] \<longleftrightarrow> (v \<noteq> None \<and> v \<noteq> Some 0)"
  by (cases v) (auto simp: int_val_def strip_Nil_iff str_int_not_blank)

lemma field_counts_simps:
  "field_counts p ''name'' = present_str (name p)"
  "field_counts p ''headline'' = present_str (headline p)"
  "field_counts p ''location'' = present_str (location p)"
  "field_counts p ''profile_url'' = present_str (profile_url p)"
  "field_counts p ''company'' = present_str (company p)"
  "field_counts p ''follower_count'' = (follower_count p \<noteq> None \<and> follower_count p \<noteq> Some 0)"
  unfolding field_counts_def get_field_def
  by (simp_all add: field_counts_str field_counts_int)

lemma completeness_unfold:
  "calculate_profile_completeness p =
     ((if present_str (name p) then 1 else 0) + (if present_str (headline p) then 1 else 0)
      + (if present_str (location p) then 1 else 0) + (if present_str (profile_url p) then 1 else 0)
      + (if present_str (company p) then 1/2 else 0)
      + (if follower_count p \<noteq> None \<and> follower_count p \<noteq> Some 0 then 1/2 else 0)) / 6"
  by (simp add: calculate_profile_completeness_def required_fields_def optional_fields_def
      field_counts_simps)

lemma completeness_spec_unfold:
  "completeness_spec p =
     ((if present_str (name p) then 1 else 0) + (if present_str (headline p) then 1 else 0)
      + (if present_str (location p) then 1 else 0) + (if present_str (profile_url p) then 1 else 0)
      + (if present_str (company p) then 1/2 else 0)
      + (if follower_count p \<noteq> None then 1/2 else 0)) / 6"
  by (simp add: completeness_spec_def)

lemma completeness_bounds:
  "0 \<le> calculate_profile_completeness p" "calculate_profile_completeness p \<le> 5/6"
  by (simp_all add: completeness_unfold)

lemma completeness_zero_followers:
  "calculate_profile_completeness (zero_followers_absent p) = calculate_profile_completeness p"
  by (simp add: completeness_unfold zero_followers_absent_def)

lemma present_examples:
  "present_str (Some ''Ann Lee'')" "present_str (Some ''AI Agent builder'')"
  "present_str (Some ''Oslo'')" "present_str (Some ''https://www.linkedin.com/in/ann'')"
  "present_str (Some ''Acme'')" "\<not> present_str None"
  by (simp_all add: present_str_def blank_def isspace_def)

lemma completeness_examples:
  "calculate_profile_completeness example_full = 5/6"
  "calculate_profile_completeness example_zero_followers = 3/4"
  "calculate_profile_completeness empty_profile = 0"
  by (simp_all add: completeness_unfold example_full_def example_zero_followers_def
      empty_profile_def present_examples)

subsection \<open>Completeness\<close>

text \<open>
  C3, as the code has it. The completeness of a record is the spec's weighted count over
  six, where a string attribute counts unless it is missing, empty or whitespace-only and
  \<open>follower_count\<close> counts when it is present and not 0 (a follower count of 0 is
  read as absent). The result lies between 0 and 1. It is 0 for a record with no
  attribute that counts, and 5/6, not 1, for a record in which all six count: the two
  optional attributes weigh one half each and the sum is still divided by six.
\<close>

theorem completeness_amended:
  "calculate_profile_completeness p = completeness_spec (zero_followers_absent p)
   \<and> 0 \<le> calculate_profile_completeness p \<and> calculate_profile_completeness p \<le> 1
   \<and> (\<not> present_str (name p) \<and> \<not> present_str (headline p) \<and> \<not> present_str (location p)
        \<and> \<not> present_str (profile_url p) \<and> \<not> present_str (company p)
        \<and> (follower_count p = None \<or> follower_count p = Some 0)
      \<longrightarrow> calculate_profile_completeness p = 0)
   \<and> (present_str (name p) \<and> present_str (headline p) \<and> present_str (location p)
        \<and> present_str (profile_url p) \<and> present_str (company p)
        \<and> follower_count p \<noteq> None \<and> follower_count p \<noteq> Some 0
      \<longrightarrow> calculate_profile_completeness p = 5/6)"
proof -
  have "calculate_profile_completeness p = completeness_spec (zero_followers_absent p)"
    by (simp add: completeness_unfold completeness_spec_unfold zero_followers_absent_def)
  moreover have "calculate_profile_completeness p \<le> 1"
    using completeness_bounds(2) [of p] by simp
  ultimately show ?thesis
    using completeness_bounds(1) [of p] by (auto simp: completeness_unfold)
qed

theorem completeness_amended_witness:
  "calculate_profile_completeness empty_profile = 0
   \<and> calculate_profile_completeness example_full = 5/6"
  using completeness_amended [of empty_profile] completeness_amended [of example_full]
  by (simp add: empty_profile_def example_full_def present_examples)

text \<open>
  C3 as stated fails: a record with all six attributes present scores 5/6, and a record
  whose follower count is 0 scores less than the spec's count gives it.
\<close>

theorem completeness_counterexample:
  "calculate_profile_completeness example_full = 5/6
   \<and> calculate_profile_completeness example_full \<noteq> 1
   \<and> calculate_profile_completeness example_zero_followers = 3/4
   \<and> completeness_spec example_zero_followers = 5/6"
proof -
  have "completeness_spec example_zero_followers = 5/6"
    by (simp add: completeness_spec_unfold example_zero_followers_def example_full_def
        empty_profile_def present_examples)
  then show ?thesis
    by (simp add: completeness_examples)
qed

subsection \<open>Confidence\<close>

lemma confidence_unfold:
  "calculate_confidence_score p kw =
     min (1/2 + calculate_profile_completeness p * (3/10)
          + (if follower_count p \<noteq> None \<and> follower_count p \<noteq> Some 0 then 1/10 else 0)
          + (if sublist (lower kw) (lower (case headline p of None \<Rightarrow> [] | Some h \<Rightarrow> h))
             then 1/10 else 0)) 1"
proof -
  have "truthy (get_field p ''follower_count'')
          = (follower_count p \<noteq> None \<and> follower_count p \<noteq> Some 0)"
    by (cases "follower_count p") (simp_all add: get_field_def int_val_def)
  then show ?thesis
    by (simp add: calculate_confidence_score_def py_in_def Let_def)
qed

text \<open>
  C2, as the code has it. The confidence of a record is the minimum of 1 and the sum of
  0.5, 0.3 times the completeness, 0.1 when \<open>follower_count\<close> is present and not 0,
  and 0.1 when the lower-cased keyword is a substring of the lower-cased headline. It
  never exceeds 1; as the completeness is at most 5/6 the sum is at most 0.95.
\<close>

theorem confidence_amended:
  "calculate_confidence_score p kw = confidence_spec (zero_followers_absent p) kw
   \<and> calculate_confidence_score p kw \<le> 1
   \<and> calculate_confidence_score p kw \<le> 19/20"
proof -
  have a: "calculate_confidence_score p kw = confidence_spec (zero_followers_absent p) kw"
    unfolding confidence_unfold confidence_spec_def completeness_zero_followers
    by (simp add: zero_followers_absent_def)
  have b: "calculate_confidence_score p kw \<le> 19/20"
    unfolding confidence_unfold using completeness_bounds(2) [of p] by auto
  from a b show ?thesis by simp
qed

text \<open>
  C2 as stated fails on a record whose follower count is 0: the count is present, yet the
  code adds no bonus for it.
\<close>

theorem confidence_counterexample:
  "follower_count example_zero_followers = Some 0
   \<and> calculate_confidence_score example_zero_followers ''ai agent'' = 33/40
   \<and> confidence_spec example_zero_followers ''ai agent'' = 37/40"
  by code_simp

section \<open>Deduplication\<close>

lemma drop_seen_index:
  "drop_seen key seen xs =
     map ((!) xs)
       (filter (\<lambda>i. key (xs ! i) \<notin> set seen \<union> set (map key (take i xs))) [0..<length xs])"
proof (induction xs arbitrary: seen)
  case Nil
  show ?case by simp
next
  case (Cons x xs)
  have upt: "[0..<length (x # xs)] = 0 # map Suc [0..<length xs]"
    by (simp add: upt_conv_Cons map_Suc_upt del: upt_Suc)
  show ?case
  proof (cases "key x \<in> set seen")
    case True
    then have "(\<lambda>i. key (xs ! i) \<notin> set seen \<and> key (xs ! i) \<noteq> key x
                  \<and> key (xs ! i) \<notin> key ` set (take i xs))
             = (\<lambda>i. key (xs ! i) \<notin> set seen \<and> key (xs ! i) \<notin> key ` set (take i xs))"
      by auto
    with True show ?thesis
      unfolding upt by (simp add: Cons.IH filter_map o_def)
  next
    case False
    have "(\<lambda>i. key (xs ! i) \<noteq> key x \<and> key (xs ! i) \<notin> set seen
                  \<and> key (xs ! i) \<notin> key ` set (take i xs))
             = (\<lambda>i. key (xs ! i) \<notin> set seen \<and> key (xs ! i) \<noteq> key x
                  \<and> key (xs ! i) \<notin> key ` set (take i xs))"
      by auto
    with False show ?thesis
      unfolding upt by (simp add: Cons.IH filter_map o_def)
  qed
qed

lemma drop_duplicates_first_occurrences: "drop_duplicates key xs = first_occurrences key xs"
  by (simp add: drop_duplicates_def first_occurrences_def drop_seen_index)

lemma drop_seen_distinct:
  "distinct (map key xs) \<Longrightarrow> set (map key xs) \<inter> set seen = {} \<Longrightarrow> drop_seen key seen xs = xs"
  by (induction xs arbitrary: seen) auto

lemma drop_seen_all_seen:
  "set (map key xs) \<subseteq> set seen \<Longrightarrow> drop_seen key seen xs = []"
  by (induction xs arbitrary: seen) auto

lemma drop_seen_set_eq:
  "set seen = set seen' \<Longrightarrow> drop_seen key seen xs = drop_seen key seen' xs"
proof (induction xs arbitrary: seen seen')
  case Nil
  show ?case by simp
next
  case (Cons x xs)
  have "set (key x # seen) = set (key x # seen')"
    using Cons.prems by simp
  then have "drop_seen key (key x # seen) xs = drop_seen key (key x # seen') xs"
    by (rule Cons.IH)
  moreover have "drop_seen key seen xs = drop_seen key seen' xs"
    using Cons.prems by (rule Cons.IH)
  ultimately show ?case
    using Cons.prems by simp
qed

lemma drop_seen_append:
  "drop_seen key seen (xs @ ys) = drop_seen key seen xs @ drop_seen key (map key xs @ seen) ys"
proof (induction xs arbitrary: seen)
  case Nil
  show ?case by simp
next
  case (Cons x xs)
  show ?case
  proof (cases "key x \<in> set seen")
    case True
    then have "drop_seen key (key x # map key xs @ seen) ys = drop_seen key (map key xs @ seen) ys"
      by (intro drop_seen_set_eq) auto
    with True show ?thesis by (simp add: Cons.IH)
  next
    case False
    have "drop_seen key (key x # map key xs @ seen) ys
            = drop_seen key (map key xs @ key x # seen) ys"
      by (intro drop_seen_set_eq) auto
    with False show ?thesis by (simp add: Cons.IH)
  qed
qed

lemma drop_seen_keys:
  "set (map key (drop_seen key seen xs)) = set (map key xs) - set seen"
  by (induction xs arbitrary: seen) auto

lemma drop_seen_keys_distinct: "distinct (map key (drop_seen key seen xs))"
proof (induction xs arbitrary: seen)
  case Nil
  show ?case by simp
next
  case (Cons x xs)
  have "key x \<notin> set (map key (drop_seen key (key x # seen) xs))"
    by (simp only: drop_seen_keys) simp
  then show ?case
    using Cons.IH by simp
qed

lemma drop_seen_idem: "drop_seen key [] (drop_seen key seen xs) = drop_seen key seen xs"
  by (simp add: drop_seen_distinct drop_seen_keys_distinct)

text \<open>The result never holds two records with one \<open>profile_url\<close>.\<close>

lemma deduplicate_profiles_distinct:
  "distinct (map profile_url (deduplicate_profiles stored new_records existing))"
  by (simp add: deduplicate_profiles_def drop_duplicates_def drop_seen_keys_distinct Let_def)

text \<open>
  C1, as the code has it. When the list of new records is not empty, the result is the
  concatenation of the existing records and the new ones with only the first record of
  each \<open>profile_url\<close> kept, in the order of these first occurrences; the existing
  records are those passed in, or those of the CSV file when none are passed. When the
  list of new records is empty the result is the empty list, whatever the existing
  records are. For existing records with the URLs a, b and new ones with b, c the result
  is the existing a, the existing b and the new c.
\<close>

theorem dedup_amended:
  "deduplicate_profiles stored new_records (Some existing_records) =
     (if new_records = [] then [] else dedup_spec new_records existing_records)
   \<and> deduplicate_profiles stored new_records None =
     (if new_records = [] then [] else dedup_spec new_records stored)
   \<and> deduplicate_profiles stored [with_url ''b'' ''scraped'', with_url ''c'' ''scraped'']
        (Some [with_url ''a'' ''on file'', with_url ''b'' ''on file''])
      = [with_url ''a'' ''on file'', with_url ''b'' ''on file'', with_url ''c'' ''scraped'']"
proof -
  have "deduplicate_profiles stored [with_url ''b'' ''scraped'', with_url ''c'' ''scraped'']
        (Some [with_url ''a'' ''on file'', with_url ''b'' ''on file''])
      = [with_url ''a'' ''on file'', with_url ''b'' ''on file'', with_url ''c'' ''scraped'']"
    by (simp add: deduplicate_profiles_def drop_duplicates_def with_url_def empty_profile_def)
  then show ?thesis
    by (simp add: deduplicate_profiles_def dedup_spec_def drop_duplicates_first_occurrences)
qed

text \<open>
  C1 as stated fails when nothing new was found: the deduplicated union of one existing
  record and no new record is that record, and the code returns the empty list.
\<close>

theorem dedup_counterexample:
  "deduplicate_profiles [] [] (Some [with_url ''a'' ''on file'']) = []
   \<and> dedup_spec [] [with_url ''a'' ''on file''] = [with_url ''a'' ''on file'']"
  by (simp add: deduplicate_profiles_def dedup_spec_def first_occurrences_def)

text \<open>
  C10. A list of records with pairwise different \<open>profile_url\<close>s comes back unchanged,
  same records in the same order, when it is deduplicated again: against no existing
  records, against itself as the existing records, and against itself read from the CSV
  file. Deduplicating the result of a deduplication changes nothing.
\<close>

theorem dedup_idempotent:
  assumes "distinct (map profile_url ps)"
  shows "deduplicate_profiles stored ps (Some []) = ps
       \<and> deduplicate_profiles stored ps (Some ps) = ps
       \<and> deduplicate_profiles ps ps None = ps
       \<and> deduplicate_profiles stored (deduplicate_profiles stored new_records existing) (Some [])
           = deduplicate_profiles stored new_records existing"
proof -
  have a: "drop_seen profile_url [] ps = ps"
    using assms by (simp add: drop_seen_distinct)
  have b: "drop_seen profile_url [] (ps @ ps) = ps"
    using assms by (simp add: drop_seen_append drop_seen_distinct drop_seen_all_seen)
  have "deduplicate_profiles stored ps (Some []) = ps"
    by (simp add: deduplicate_profiles_def drop_duplicates_def a)
  moreover have "deduplicate_profiles stored ps (Some ps) = ps"
    by (simp add: deduplicate_profiles_def drop_duplicates_def a b)
  moreover have "deduplicate_profiles ps ps None = ps"
    by (simp add: deduplicate_profiles_def drop_duplicates_def a b)
  moreover have
    "deduplicate_profiles stored (deduplicate_profiles stored new_records existing) (Some [])
       = deduplicate_profiles stored new_records existing"
    by (simp add: deduplicate_profiles_def drop_duplicates_def drop_seen_idem Let_def)
  ultimately show ?thesis by simp
qed

theorem dedup_idempotent_witness:
  "distinct (map profile_url [with_url ''a'' ''on file'', with_url ''b'' ''on file''])
   \<and> deduplicate_profiles [] [with_url ''a'' ''on file'', with_url ''b'' ''on file'']
        (Some [with_url ''a'' ''on file'', with_url ''b'' ''on file''])
      = [with_url ''a'' ''on file'', with_url ''b'' ''on file'']"
proof -
  have d: "distinct (map profile_url [with_url ''a'' ''on file'', with_url ''b'' ''on file''])"
    by (simp add: with_url_def empty_profile_def)
  from dedup_idempotent [OF d, of "[]"] d show ?thesis by simp
qed

section \<open>Quality filter and ranking\<close>

lemma fold_filter_aux:
  "fold (\<lambda>x acc. if P x then acc @ [x] else acc) xs acc = acc @ filter P xs"
  by (induction xs arbitrary: acc) auto

lemma filter_by_quality_eq:
  "filter_by_quality ps mc mk =
     filter (\<lambda>p. mc \<le> get_score (confidence_score p) \<and> mk \<le> get_score (profile_completeness p)) ps"
  by (simp add: filter_by_quality_def fold_filter_aux Let_def)

text \<open>
  C4, as the code has it. The filter keeps, in order, exactly the records whose
  \<open>confidence_score\<close> is at least \<open>min_confidence\<close> and whose
  \<open>profile_completeness\<close> is at least \<open>min_completeness\<close>, both bounds inclusive,
  a missing score being read as 0. So a record that lacks a score is dropped whenever
  the threshold of that score is positive. With the thresholds 0.7 and 0.6 a record with
  the scores 0.69 and 0.9 is dropped and one with 0.7 and 0.6 is kept.
\<close>

theorem filter_by_quality_amended:
  "filter_by_quality ps mc mk =
     filter (\<lambda>p. mc \<le> get_score (confidence_score p) \<and> mk \<le> get_score (profile_completeness p)) ps
   \<and> (0 < mc \<and> confidence_score p = None \<longrightarrow> p \<notin> set (filter_by_quality ps mc mk))
   \<and> (0 < mk \<and> profile_completeness p = None \<longrightarrow> p \<notin> set (filter_by_quality ps mc mk))
   \<and> filter_by_quality [with_scores ''x'' (69/100) (9/10)] (7/10) (6/10) = []
   \<and> filter_by_quality [with_scores ''y'' (7/10) (6/10)] (7/10) (6/10)
        = [with_scores ''y'' (7/10) (6/10)]"
  by (simp add: filter_by_quality_eq get_score_def with_scores_def empty_profile_def)

theorem filter_by_quality_amended_witness:
  "(0::real) < 7/10 \<and> confidence_score example_unscored = None
   \<and> example_unscored \<notin> set (filter_by_quality [example_unscored] (7/10) (6/10))"
proof -
  have h: "(0::real) < 7/10 \<and> confidence_score example_unscored = None"
    by (simp add: example_unscored_def empty_profile_def)
  with filter_by_quality_amended [of "[example_unscored]" "7/10" "6/10" example_unscored]
  have "example_unscored \<notin> set (filter_by_quality [example_unscored] (7/10) (6/10))"
    by blast
  with h show ?thesis by blast
qed

text \<open>
  C4 as stated fails for a threshold that is not positive: the record has no confidence
  score and the filter keeps it.
\<close>

theorem filter_by_quality_counterexample:
  "confidence_score example_unscored = None
   \<and> profile_completeness example_unscored = None
   \<and> filter_by_quality [example_unscored] 0 0 = [example_unscored]"
  by (simp add: filter_by_quality_eq get_score_def example_unscored_def empty_profile_def)

lemma py_sorted_reverse_mset: "mset (py_sorted_reverse f xs) = mset xs"
  by (simp add: py_sorted_reverse_def)

lemma py_sorted_reverse_desc: "sorted_wrt (\<lambda>a b. f a \<ge> f b) (py_sorted_reverse f xs)"
proof -
  have "sorted (map f (sort_key f (rev xs)))" by (rule sorted_sort_key)
  then have "sorted_wrt (\<lambda>a b. f a \<le> f b) (sort_key f (rev xs))"
    by (simp add: sorted_wrt_map)
  then show ?thesis
    by (simp add: py_sorted_reverse_def sorted_wrt_rev)
qed

lemma py_sorted_reverse_stable:
  "filter (\<lambda>x. f x = k) (py_sorted_reverse f xs) = filter (\<lambda>x. f x = k) xs"
proof -
  have "filter (\<lambda>x. f x = k) (rev (sort_key f (rev xs)))
          = rev (filter (\<lambda>x. f x = k) (sort_key f (rev xs)))"
    by (simp only: rev_filter)
  also have "\<dots> = rev (filter (\<lambda>x. f x = k) (rev xs))"
    by (simp only: sort_key_stable)
  also have "\<dots> = filter (\<lambda>x. f x = k) xs"
    by (simp only: rev_filter rev_rev_ident)
  finally show ?thesis by (simp only: py_sorted_reverse_def)
qed

lemma sort_by_quality_eq:
  "sort_by_quality ps =
     py_sorted_reverse (\<lambda>x. get_score (quality_score x)) (map set_quality_score ps)"
  by (simp add: sort_by_quality_def py_sorted_reverse_def)

lemma sort_by_quality_example:
  "sort_by_quality [example_A, example_B, example_C] =
     [example_A\<lparr>quality_score := Some (6/5)\<rparr>, example_B\<lparr>quality_score := Some (6/5)\<rparr>,
      example_C\<lparr>quality_score := Some (9/10)\<rparr>]"
  by (simp add: sort_by_quality_eq py_sorted_reverse_def set_quality_score_def get_score_def
      example_A_def example_B_def example_C_def with_scores_def empty_profile_def)

text \<open>
  C5. Ranking gives every record the \<open>quality_score\<close> that is the sum of its
  \<open>confidence_score\<close> and \<open>profile_completeness\<close> and returns these records, each
  exactly as often as it was given, in descending order of \<open>quality_score\<close>; the
  records of any one \<open>quality_score\<close> keep the order they had in the input. The
  records A, B, C with the quality scores 1.2, 1.2 and 0.9 come back in the order A, B, C.
\<close>

theorem sort_by_quality_stable:
  "mset (sort_by_quality ps) = mset (map set_quality_score ps)
   \<and> sorted_wrt (\<lambda>a b. get_score (quality_score a) \<ge> get_score (quality_score b))
        (sort_by_quality ps)
   \<and> filter (\<lambda>p. get_score (quality_score p) = k) (sort_by_quality ps)
        = filter (\<lambda>p. get_score (quality_score p) = k) (map set_quality_score ps)
   \<and> (\<forall>p \<in> set (sort_by_quality ps).
         quality_score p = Some (get_score (confidence_score p) + get_score (profile_completeness p)))
   \<and> sort_by_quality [example_A, example_B, example_C] =
       [example_A\<lparr>quality_score := Some (6/5)\<rparr>, example_B\<lparr>quality_score := Some (6/5)\<rparr>,
        example_C\<lparr>quality_score := Some (9/10)\<rparr>]"
proof -
  have "set (sort_by_quality ps) = set (map set_quality_score ps)"
    by (simp add: sort_by_quality_eq py_sorted_reverse_def)
  then have "\<forall>p \<in> set (sort_by_quality ps).
         quality_score p = Some (get_score (confidence_score p) + get_score (profile_completeness p))"
    by (auto simp: set_quality_score_def)
  then show ?thesis
    by (simp add: sort_by_quality_example)
       (simp add: sort_by_quality_eq py_sorted_reverse_mset py_sorted_reverse_desc
          py_sorted_reverse_stable)
qed

theorem sort_by_quality_stable_witness:
  "example_B\<lparr>quality_score := Some (6/5)\<rparr> \<in> set (sort_by_quality [example_A, example_B, example_C])
   \<and> quality_score (example_B\<lparr>quality_score := Some (6/5)\<rparr>)
       = Some (get_score (confidence_score example_B) + get_score (profile_completeness example_B))"
  using sort_by_quality_stable [of "[example_A, example_B, example_C]"]
  by (simp add: example_B_def with_scores_def empty_profile_def get_score_def)

section \<open>Summary of no records\<close>

text \<open>
  C9, as the code has it. For the empty list the summary is the empty dict: no exception
  is raised and the report has no entry at all, in particular none for the two averages.
  Read the way the exporter reads it, every entry is the default it is read with, which
  is 0 for the two averages.
\<close>

theorem summary_empty_amended:
  "generate_summary_report keys [] = []
   \<and> summary_get (generate_summary_report keys []) key dflt = dflt
   \<and> summary_get (generate_summary_report keys []) ''avg_confidence_score'' (RInt 0) = RInt 0
   \<and> summary_get (generate_summary_report keys []) ''avg_profile_completeness'' (RInt 0) = RInt 0"
  by (simp add: generate_summary_report_def summary_get_def)

text \<open>
  C9 as stated fails: the report for no records does not define the averages as 0.0, it
  does not hold them.
\<close>

theorem summary_empty_counterexample:
  "map_of (generate_summary_report scraper_keys []) ''avg_confidence_score'' = None
   \<and> map_of (generate_summary_report scraper_keys []) ''avg_profile_completeness'' = None
   \<and> map_of (generate_summary_report scraper_keys [example_scored]) ''avg_confidence_score''
        = Some (RFloat (19/20))"
  by (simp add: generate_summary_report_def in_columns_def scraper_keys_def column_def mean_def
      List.map_filter_simps example_scored_def example_full_def empty_profile_def)

section \<open>The workflow as a state machine\<close>

lemma run_steps_Suc: "run_steps e now (Suc n) sw = run_steps e now n (worker_step e now sw)"
  by (simp add: run_steps_def funpow_swap1)

lemma run_steps_0: "run_steps e now 0 sw = sw"
  by (simp add: run_steps_def)

lemma run_steps_add: "run_steps e now (m + n) sw = run_steps e now n (run_steps e now m sw)"
  by (induction m arbitrary: sw) (simp_all add: run_steps_Suc run_steps_0)

lemma worker_step_Done: "pc w = Done \<Longrightarrow> worker_step e now (st, w) = (st, w)"
  by (simp add: worker_step.simps)

lemma run_steps_Done: "pc w = Done \<Longrightarrow> run_steps e now n (st, w) = (st, w)"
  by (induction n) (simp_all add: run_steps_Suc run_steps_0 worker_step_Done)

lemma step_decreases:
  "pc w \<noteq> Done \<Longrightarrow>
     steps_left e (pc (snd (worker_step e now (st, w)))) < steps_left e (pc w)"
  by (cases "pc w")
     (auto simp: worker_step.simps steps_left_def search_done_def Let_def
           split: option.splits list.splits)

lemma run_steps_reaches_Done:
  "steps_left e (pc w) \<le> n \<Longrightarrow> pc (snd (run_steps e now n (st, w))) = Done"
proof (induction n arbitrary: st w)
  case 0
  then show ?case
    by (cases "pc w") (simp_all add: steps_left_def run_steps_0 Let_def)
next
  case (Suc n)
  show ?case
  proof (cases "pc w = Done")
    case True
    then show ?thesis by (simp add: run_steps_Done)
  next
    case False
    obtain st' w' where sw: "worker_step e now (st, w) = (st', w')"
      by (cases "worker_step e now (st, w)")
    from step_decreases [OF False, of e now st] sw Suc.prems
    have "steps_left e (pc w') \<le> n" by simp
    then have "pc (snd (run_steps e now n (st', w'))) = Done" by (rule Suc.IH)
    then show ?thesis by (simp add: run_steps_Suc sw)
  qed
qed

lemma run_to_end_Done: "pc (snd (run_to_end e now sw)) = Done"
  by (cases sw) (simp add: run_to_end_def run_steps_reaches_Done)

text \<open>Once the worker is done, further steps change nothing.\<close>

lemma run_steps_enough:
  assumes "pc (snd (run_steps e now m sw)) = Done" and "m \<le> n"
  shows "run_steps e now n sw = run_steps e now m sw"
proof -
  obtain k where n: "n = m + k" using assms(2) by (auto simp: le_iff_add)
  obtain st w where r: "run_steps e now m sw = (st, w)" by (cases "run_steps e now m sw")
  with assms(1) have "pc w = Done" by simp
  then show ?thesis by (simp add: n run_steps_add r run_steps_Done)
qed
















subsection \<open>The example job\<close>

lemma example_started_eq:
  "example_started =
     (\<lparr>running = True, progress = 0, message = ''Initializing scraper...'', total_profiles = 0,
        found_profiles = 0, start_time = Some ''09:00:00'', end_time = None, error = None\<rparr>,
      new_worker)"
  by (simp add: example_started_def start_scraping_def example_request_def
      example_credentials_def initial_status_def str_val_def)






lemma scraper_fault_run:
  "run_to_end (e\<lparr>scraper_fault := Some exn\<rparr>) now (st, new_worker) =
     (st\<lparr>error := Some (''Scraping failed: '' @ exn), running := False, end_time := Some now\<rparr>,
      new_worker\<lparr>pc := Done, uncaught := Some ''UnboundLocalError: scraper''\<rparr>)"
proof -
  let ?e = "e\<lparr>scraper_fault := Some exn\<rparr>"
  have two: "run_steps ?e now 2 (st, new_worker) =
     (st\<lparr>error := Some (''Scraping failed: '' @ exn), running := False, end_time := Some now\<rparr>,
      new_worker\<lparr>pc := Done, uncaught := Some ''UnboundLocalError: scraper''\<rparr>)"
    by (simp add: eval_nat_numeral run_steps_Suc run_steps_0 worker_step.simps new_worker_def)
  then have "pc (snd (run_steps ?e now 2 (st, new_worker))) = Done"
    by (simp only: two) simp
  moreover have "2 \<le> steps_left ?e (pc new_worker)"
    by (simp add: steps_left_def new_worker_def Let_def)
  ultimately have "run_steps ?e now (steps_left ?e (pc new_worker)) (st, new_worker)
                     = run_steps ?e now 2 (st, new_worker)"
    by (rule run_steps_enough)
  then show ?thesis
    by (simp only: run_to_end_def snd_conv two)
qed

lemma finished_invariant:
  assumes "pc w = Done \<longrightarrow> \<not> running st \<and> end_time st = Some now \<and> closed w = scraper_bound w
             \<and> (uncaught w = None) = scraper_bound w"
    and "uncaught w = None \<or> pc w = Done" and "\<not> closed w \<or> pc w = Done"
    and "worker_step e now (st, w) = (st', w')"
  shows "(pc w' = Done \<longrightarrow> \<not> running st' \<and> end_time st' = Some now \<and> closed w' = scraper_bound w'
             \<and> (uncaught w' = None) = scraper_bound w')
         \<and> (uncaught w' = None \<or> pc w' = Done) \<and> (\<not> closed w' \<or> pc w' = Done)"
  using assms
  by (cases "pc w")
     (auto simp: worker_step.simps search_done_def Let_def
           split: option.splits list.splits if_splits)

lemma run_steps_finished:
  assumes "pc w = Done \<longrightarrow> \<not> running st \<and> end_time st = Some now \<and> closed w = scraper_bound w
             \<and> (uncaught w = None) = scraper_bound w"
    and "uncaught w = None \<or> pc w = Done" and "\<not> closed w \<or> pc w = Done"
    and "run_steps e now n (st, w) = (st', w')"
  shows "pc w' = Done \<longrightarrow> \<not> running st' \<and> end_time st' = Some now \<and> closed w' = scraper_bound w'
             \<and> (uncaught w' = None) = scraper_bound w'"
  using assms
proof (induction n arbitrary: st w)
  case 0
  then show ?case by (simp add: run_steps_0)
next
  case (Suc n)
  obtain st1 w1 where sw: "worker_step e now (st, w) = (st1, w1)"
    by (cases "worker_step e now (st, w)")
  note inv = finished_invariant [OF Suc.prems(1) Suc.prems(2) Suc.prems(3) sw]
  have "run_steps e now n (st1, w1) = (st', w')"
    using Suc.prems(4) by (simp add: run_steps_Suc sw)
  with inv show ?case
    by (intro Suc.IH) simp_all
qed

text \<open>
  Every run of the workflow ends, and ends with the status finalised. The scraper is
  closed exactly when it had been constructed; when it had not, the \<open>finally\<close> block
  itself raises and that exception leaves the thread.
\<close>

lemma workflow_finalises:
  assumes "pc w \<noteq> Done" and "uncaught w = None" and "\<not> closed w"
  shows "pc (snd (run_to_end e now (st, w))) = Done
       \<and> \<not> running (fst (run_to_end e now (st, w)))
       \<and> end_time (fst (run_to_end e now (st, w))) = Some now
       \<and> closed (snd (run_to_end e now (st, w))) = scraper_bound (snd (run_to_end e now (st, w)))
       \<and> (uncaught (snd (run_to_end e now (st, w))) = None)
           = scraper_bound (snd (run_to_end e now (st, w)))"
proof -
  obtain st' w' where r: "run_to_end e now (st, w) = (st', w')"
    by (cases "run_to_end e now (st, w)")
  then have "run_steps e now (steps_left e (pc w)) (st, w) = (st', w')"
    by (simp add: run_to_end_def)
  from run_steps_finished [OF _ _ _ this] assms
  have "pc w' = Done \<longrightarrow> \<not> running st' \<and> end_time st' = Some now \<and> closed w' = scraper_bound w'
             \<and> (uncaught w' = None) = scraper_bound w'"
    by simp
  moreover have "pc w' = Done"
    using run_to_end_Done [of e now "(st, w)"] by (simp add: r)
  ultimately show ?thesis by (simp add: r)
qed

lemma processing_fault_recorded:
  "processing_fault e = Some exn \<Longrightarrow> all \<noteq> [] \<Longrightarrow>
     error (process_profiles e st all) = Some (''Scraping failed: '' @ exn)"
  by (simp add: process_profiles_def)

section \<open>Starting a job\<close>




section \<open>Stopping a job\<close>







section \<open>Failures inside the workflow\<close>

text \<open>
  C8 on a job whose browser driver cannot be launched. The failure is caught and
  recorded, the flag is cleared and the end time set; then the \<open>finally\<close> block
  reads the variable \<open>scraper\<close>, which was never bound, so an
  \<open>UnboundLocalError\<close> leaves the workflow uncaught and nothing is closed.
\<close>


theorem scraper_fault_escapes:
  "run_to_end example_env_no_driver ''09:00:30'' example_started =
     (\<lparr>running = False, progress = 0, message = ''Initializing scraper...'', total_profiles = 0,
        found_profiles = 0, start_time = Some ''09:00:00'', end_time = Some ''09:00:30'',
        error = Some ''Scraping failed: chromedriver not found''\<rparr>,
      \<lparr>pc = Done, all_profiles = [], current_search = 0, scraper_bound = False,
        closed = False, uncaught = Some ''UnboundLocalError: scraper'', calls = []\<rparr>)"
  by (simp add: example_env_no_driver_def example_started_eq scraper_fault_run)
     (simp add: new_worker_def)

end
